theory Spec2Isabelle
  imports Complex_Main "HOL-Library.AList"
begin

section \<open>JavaScript values\<close>

text \<open>
  The trader of \<^verbatim>\<open>src/exchanges/gateio-futures.js\<close> reads every figure out of JSON
  payloads, so the model keeps the payloads as JavaScript values. A finite number is the
  exact rational value of the double that holds it. The non-finite numbers are kept as
  values of their own, because \<^verbatim>\<open>Number.isFinite\<close> and truthiness tell them apart.
  An object is an association list from keys to values.
\<close>

datatype jsval =
    JUndefined
  | JNull
  | JBool bool
  | JNum rat
  | JNaN
  | JInfinity bool
  | JStr string
  | JArr "jsval list"
  | JObj "(string \<times> jsval) list"

text \<open>Truthiness, as \<^verbatim>\<open>if (v)\<close>, \<^verbatim>\<open>!v\<close>, \<^verbatim>\<open>a || b\<close> and \<^verbatim>\<open>a && b\<close> test it.\<close>

fun truthy :: "jsval \<Rightarrow> bool" where
  "truthy JUndefined = False"
| "truthy JNull = False"
| "truthy (JBool b) = b"
| "truthy (JNum r) = (r \<noteq> 0)"
| "truthy JNaN = False"
| "truthy (JInfinity s) = True"
| "truthy (JStr s) = (s \<noteq> [])"
| "truthy (JArr xs) = True"
| "truthy (JObj kvs) = True"

definition nullish :: "jsval \<Rightarrow> bool" where
  "nullish v = (v = JNull \<or> v = JUndefined)"

text \<open>
  \<^verbatim>\<open>v.k\<close> on a value that is neither null nor undefined. The keys the trader reads
  (\<^verbatim>\<open>size\<close>, \<^verbatim>\<open>long_size\<close>, \<^verbatim>\<open>leverage\<close>, \<^verbatim>\<open>mode\<close>, ...) are own properties
  of objects only: on an array, a string, a number or a boolean they are undefined.
\<close>

fun field :: "jsval \<Rightarrow> string \<Rightarrow> jsval" where
  "field (JObj kvs) k = (case map_of kvs k of Some v \<Rightarrow> v | None \<Rightarrow> JUndefined)"
| "field v k = JUndefined"

text \<open>\<^verbatim>\<open>v?.k\<close>: undefined on null and undefined instead of a TypeError.\<close>

definition optProp :: "jsval \<Rightarrow> string \<Rightarrow> jsval" where
  "optProp v k = (if nullish v then JUndefined else field v k)"

text \<open>\<^verbatim>\<open>a ?? b\<close> and \<^verbatim>\<open>a || b\<close> on values.\<close>

definition coalesce :: "jsval \<Rightarrow> jsval \<Rightarrow> jsval" where
  "coalesce a b = (if nullish a then b else a)"

definition orElse :: "jsval \<Rightarrow> jsval \<Rightarrow> jsval" where
  "orElse a b = (if truthy a then a else b)"

text \<open>\<^verbatim>\<open>typeof v === 'object'\<close> for a truthy \<open>v\<close> (null is excluded by the callers).\<close>

fun isObjectType :: "jsval \<Rightarrow> bool" where
  "isObjectType (JObj kvs) = True"
| "isObjectType (JArr xs) = True"
| "isObjectType JNull = True"
| "isObjectType v = False"

text \<open>
  Errors are values. \<open>RequestError\<close> is what \<^verbatim>\<open>request\<close> throws, \<open>TypeError\<close> a
  property read on null or undefined, \<open>Failure m\<close> is \<^verbatim>\<open>new Error(m)\<close> and
  \<open>Wrapped p e\<close> is \<^verbatim>\<open>new Error(p + e.message)\<close>.
\<close>

datatype error =
    RequestError string
  | TypeError
  | Failure string
  | Wrapped string error

section \<open>Parsing numbers\<close>

text \<open>
  \<^verbatim>\<open>parseFloat\<close> is the engine's: the model takes it as a parameter \<open>pf\<close>, from the
  value to the finite number it parses to, \<open>None\<close> when the result is NaN or infinite.
  Every theorem holds for every such function.

  \<^verbatim>\<open>parseNumber(value, fallback = 0)\<close>:
  \<^verbatim>\<open>
    if (value === null || value === undefined) return fallback;
    const num = typeof value === 'number' ? value : parseFloat(value);
    return Number.isFinite(num) ? num : fallback;
  \<close>
  The source calls it with a numeric fallback (the default 0) and once with
  \<^verbatim>\<open>null\<close>; \<open>parseNumberOrNull\<close> is that call, \<open>None\<close> standing for null.
\<close>

type_synonym parser = "jsval \<Rightarrow> rat option"

fun finiteNumber :: "parser \<Rightarrow> jsval \<Rightarrow> rat option" where
  "finiteNumber pf (JNum r) = Some r"
| "finiteNumber pf JNaN = None"
| "finiteNumber pf (JInfinity s) = None"
| "finiteNumber pf v = pf v"

definition parseNumberOrNull :: "parser \<Rightarrow> jsval \<Rightarrow> rat option" where
  "parseNumberOrNull pf v = (if v = JNull \<or> v = JUndefined then None else finiteNumber pf v)"

definition parseNumber :: "parser \<Rightarrow> jsval \<Rightarrow> rat \<Rightarrow> rat" where
  "parseNumber pf v fallback =
     (if v = JNull \<or> v = JUndefined then fallback
      else case finiteNumber pf v of Some num \<Rightarrow> num | None \<Rightarrow> fallback)"

section \<open>Double arithmetic\<close>

text \<open>
  A product or a quotient of two doubles is the exact result rounded to the nearest
  double, ties to even (IEEE 754 binary64, the only number type of JavaScript).
  \<open>toDouble\<close> is that rounding on the rationals: with \<open>2 ^ e \<le> |x| < 2 ^ (e + 1)\<close>, and
  \<open>e\<close> no less than \<open>-1022\<close> (below it the doubles are subnormal and equally spaced),
  the doubles around \<open>x\<close> are the multiples of \<open>2 ^ (e - 52)\<close>. Comparisons, negation,
  \<^verbatim>\<open>Math.abs\<close>, \<^verbatim>\<open>Math.min\<close> and \<^verbatim>\<open>Math.floor\<close> are exact on doubles. A result
  beyond the largest double (about \<open>1.8e308\<close>), where the source would go on with
  \<^verbatim>\<open>Infinity\<close>, is not modelled: the rounding goes on as if the exponent had no upper
  bound. The sums of position sizes further down are kept exact.
\<close>

fun bitLength :: "nat \<Rightarrow> nat" where
  "bitLength n = (if n = 0 then 0 else Suc (bitLength (n div 2)))"

definition pow2 :: "int \<Rightarrow> rat" where
  "pow2 e = (if 0 \<le> e then 2 ^ nat e else 1 / 2 ^ nat (- e))"

text \<open>The exponent \<open>e\<close> of a positive \<open>y\<close>: \<open>2 ^ e \<le> y < 2 ^ (e + 1)\<close>.\<close>

definition exponentOf :: "rat \<Rightarrow> int" where
  "exponentOf y =
     (if 1 \<le> y then int (bitLength (nat \<lfloor>y\<rfloor>)) - 1
      else - int (bitLength (nat (\<lceil>1 / y\<rceil> - 1))))"

definition roundHalfEven :: "rat \<Rightarrow> int" where
  "roundHalfEven n =
     (let f = \<lfloor>n\<rfloor>; d = n - of_int f
      in if d < 1 / 2 then f
         else if 1 / 2 < d then f + 1
         else if even f then f
         else f + 1)"

definition toDouble :: "rat \<Rightarrow> rat" where
  "toDouble x =
     (if x = 0 then 0
      else (let e = max (exponentOf \<bar>x\<bar>) (- 1022);
                q = pow2 (e - 52)
            in of_int (roundHalfEven (x / q)) * q))"

text \<open>\<^verbatim>\<open>x * y\<close> and \<^verbatim>\<open>x / y\<close> on finite numbers, with a divisor that is not zero.\<close>

definition dmul :: "rat \<Rightarrow> rat \<Rightarrow> rat" where
  "dmul x y = toDouble (x * y)"

definition ddiv :: "rat \<Rightarrow> rat \<Rightarrow> rat" where
  "ddiv x y = toDouble (x / y)"

text \<open>
  \<^verbatim>\<open>normalizePercentage(amount)\<close>:
  \<^verbatim>\<open>
    const parsed = this.parseNumber(amount, null);
    if (parsed === null || parsed <= 0) throw new Error('Amount must be ...');
    return parsed > 1 ? parsed / 100 : parsed;
  \<close>
\<close>

definition normalizePercentage :: "parser \<Rightarrow> jsval \<Rightarrow> error + rat" where
  "normalizePercentage pf amount =
     (case parseNumberOrNull pf amount of
        None \<Rightarrow> Inl (Failure ''Amount must be a positive numeric percentage'')
      | Some parsed \<Rightarrow>
          if parsed \<le> 0 then Inl (Failure ''Amount must be a positive numeric percentage'')
          else Inr (if parsed > 1 then ddiv parsed 100 else parsed))"

text \<open>A parser that recognises nothing, for the concrete scenarios below.\<close>

definition noParse :: parser where
  "noParse v = None"

section \<open>The trader and the exchange\<close>

text \<open>
  The fields the constructor of \<^verbatim>\<open>GateIOFuturesTrader\<close> leaves in \<^verbatim>\<open>this\<close>, each
  with its default already applied (\<^verbatim>\<open>options.settle || 'usdt'\<close>,
  \<^verbatim>\<open>options.positionMode || 'dual_long_short'\<close>, \<^verbatim>\<open>options.defaultLeverage || 1\<close>).
  The default leverage is a finite number.
\<close>

record trader =
  settle :: string
  positionMode :: string
  defaultLeverage :: rat

text \<open>
  \<^verbatim>\<open>request(method, endpoint, data, queryParams)\<close> signs the request, sends it and
  parses the answer. The model takes its outcome as given: an exchange maps the four
  arguments to the error thrown (\<open>Inl\<close>) or to the parsed body (\<open>Inr\<close>, with
  \<open>JNull\<close> for an empty body). A request without a body passes \<open>JNull\<close>.
\<close>

type_synonym exchange = "string \<Rightarrow> string \<Rightarrow> jsval \<Rightarrow> string \<Rightarrow> error + jsval"

datatype side = Long | Short

text \<open>
  \<^verbatim>\<open>parseSymbol\<close>: \<^verbatim>\<open>ccxtSymbol.split(':')[0].replace('/', '_')\<close>; a string pattern
  replaces the first occurrence only.
\<close>

fun replaceFirst :: "char \<Rightarrow> char \<Rightarrow> string \<Rightarrow> string" where
  "replaceFirst a b [] = []"
| "replaceFirst a b (c # cs) = (if c = a then b # cs else c # replaceFirst a b cs)"

definition parseSymbol :: "string \<Rightarrow> string" where
  "parseSymbol ccxtSymbol =
     replaceFirst (CHR ''/'') (CHR ''_'') (takeWhile (\<lambda>c. c \<noteq> CHR '':'') ccxtSymbol)"

text \<open>
  The loop the extractors share:
  \<^verbatim>\<open>
    for (const field of candidateFields) {
      const value = this.parseNumber(payload[field]);
      if (value > 0) return value;
    }
  \<close>
  \<open>None\<close> when the loop ends without returning.
\<close>

fun firstPositiveField :: "parser \<Rightarrow> jsval \<Rightarrow> string list \<Rightarrow> rat option" where
  "firstPositiveField pf payload [] = None"
| "firstPositiveField pf payload (f # fs) =
     (let value = parseNumber pf (field payload f) 0
      in if value > 0 then Some value else firstPositiveField pf payload fs)"

text \<open>\<^verbatim>\<open>extractMarginAvailableBalance(marginAccount)\<close>.\<close>

definition extractMarginAvailableBalance :: "parser \<Rightarrow> jsval \<Rightarrow> rat" where
  "extractMarginAvailableBalance pf marginAccount =
     (if truthy marginAccount \<and> isObjectType marginAccount then
        (let quote = field marginAccount ''quote'' in
         if truthy quote \<and> isObjectType quote
            \<and> parseNumber pf (field quote ''available'') 0 > 0
         then parseNumber pf (field quote ''available'') 0
         else (case firstPositiveField pf marginAccount
                      [''available'', ''available_balance'', ''balance''] of
                 Some value \<Rightarrow> value
               | None \<Rightarrow> 0))
      else 0)"

text \<open>\<^verbatim>\<open>extractAccountLeverage(accountPayload)\<close>; \<open>None\<close> is null.\<close>

definition extractAccountLeverage :: "parser \<Rightarrow> jsval \<Rightarrow> rat option" where
  "extractAccountLeverage pf accountPayload =
     (if truthy accountPayload \<and> isObjectType accountPayload then
        firstPositiveField pf accountPayload
          [''leverage'', ''cross_leverage_limit'', ''position_leverage'',
           ''long_leverage'', ''short_leverage'', ''max_leverage'']
      else None)"

text \<open>\<^verbatim>\<open>determinePositionMode(position)\<close>.\<close>

definition determinePositionMode :: "trader \<Rightarrow> jsval \<Rightarrow> jsval" where
  "determinePositionMode tr position =
     (if truthy position then
        (if truthy (field position ''mode'') then field position ''mode''
         else if truthy (field position ''position_mode'') then field position ''position_mode''
         else (case field position ''dual_mode'' of
                 JBool b \<Rightarrow> JStr (if b then ''dual_long_short'' else ''single'')
               | _ \<Rightarrow> JStr (positionMode tr)))
      else JStr (positionMode tr))"

text \<open>
  \<^verbatim>\<open>resolveLeverageForSide(position, fallbackLeverage, fallbackSource, side)\<close>:
  the position's own leverage first, then the fallback, then the default. The result is
  the pair of \<^verbatim>\<open>value\<close> and \<^verbatim>\<open>source\<close>.
\<close>

definition resolveLeverageForSide ::
  "parser \<Rightarrow> trader \<Rightarrow> jsval \<Rightarrow> rat option \<Rightarrow> string option \<Rightarrow> side \<Rightarrow> rat \<times> string" where
  "resolveLeverageForSide pf tr position fallbackLeverage fallbackSource side =
     (case (if truthy position
            then firstPositiveField pf position
                   (if side = Short then [''short_leverage'', ''leverage'']
                    else [''long_leverage'', ''leverage''])
            else None) of
        Some value \<Rightarrow> (value, ''position'')
      | None \<Rightarrow>
          (case (case fallbackLeverage of
                   Some f \<Rightarrow> if f \<noteq> 0 \<and> f > 0 then Some f else None
                 | None \<Rightarrow> None) of
             Some f \<Rightarrow>
               (f, case fallbackSource of
                     Some s \<Rightarrow> if s \<noteq> [] then s else ''account''
                   | None \<Rightarrow> ''account'')
           | None \<Rightarrow>
               (if defaultLeverage tr \<noteq> 0 then defaultLeverage tr else 1, ''default'')))"

text \<open>
  \<^verbatim>\<open>getMarginAccount(symbol)\<close>: every failure of the request is caught and gives null.
\<close>

definition getMarginAccount :: "exchange \<Rightarrow> string \<Rightarrow> jsval" where
  "getMarginAccount ex symbol =
     (let currencyPair = parseSymbol symbol in
      case ex ''GET'' ''/api/v4/margin/user/account'' JNull (''currency_pair='' @ currencyPair) of
        Inl e \<Rightarrow> JNull
      | Inr result \<Rightarrow>
          (case result of
             JArr items \<Rightarrow>
               orElse
                 (orElse
                    (case find (\<lambda>item. optProp item ''currency_pair'' = JStr currencyPair) items of
                       Some found \<Rightarrow> found
                     | None \<Rightarrow> JUndefined)
                    (case items of [] \<Rightarrow> JUndefined | first # others \<Rightarrow> first))
                 JNull
           | _ \<Rightarrow>
               if truthy result then
                 (if field result ''currency_pair'' = JStr currencyPair then result
                  else if truthy (field result ''currency_pair'') then JNull
                  else result)
               else JNull))"

text \<open>\<^verbatim>\<open>getContract(symbol)\<close>: the request's error is wrapped and thrown again.\<close>

definition getContract :: "trader \<Rightarrow> exchange \<Rightarrow> string \<Rightarrow> error + jsval" where
  "getContract tr ex symbol =
     (case ex ''GET'' (''/api/v4/futures/'' @ settle tr @ ''/contracts/'' @ parseSymbol symbol)
             JNull [] of
        Inl e \<Rightarrow> Inl (Wrapped ''Failed to get contract info: '' e)
      | Inr result \<Rightarrow> Inr result)"

section \<open>Positions\<close>

text \<open>
  \<^verbatim>\<open>{ ...v }\<close>: the own enumerable properties of \<open>v\<close>. An object gives its entries,
  a string one entry per character under its decimal index, every other primitive none.
  (The array case does not arise: \<^verbatim>\<open>normalizePositionPayload\<close> spreads only what
  \<^verbatim>\<open>Array.isArray\<close> has rejected.)
\<close>

fun decimal :: "nat \<Rightarrow> string" where
  "decimal n =
     (if n < 10 then [char_of (48 + n)]
      else decimal (n div 10) @ [char_of (48 + n mod 10)])"

fun indexed :: "nat \<Rightarrow> string \<Rightarrow> (string \<times> jsval) list" where
  "indexed i [] = []"
| "indexed i (c # cs) = (decimal i, JStr [c]) # indexed (Suc i) cs"

fun spread :: "jsval \<Rightarrow> (string \<times> jsval) list" where
  "spread (JObj kvs) = kvs"
| "spread (JStr s) = indexed 0 s"
| "spread v = []"

text \<open>
  The body of the \<^verbatim>\<open>forEach\<close> of \<^verbatim>\<open>normalizePositionPayload\<close> on the state
  \<^verbatim>\<open>(longSize, shortSize, mode)\<close>:
  \<^verbatim>\<open>
    const size = this.parseNumber(entry?.size);
    if (size > 0) longSize += size; else if (size < 0) shortSize += size;
    if (!mode && entry?.mode) mode = entry.mode;
    else if (!mode && typeof entry?.dual_mode === 'boolean')
      mode = entry.dual_mode ? 'dual_long_short' : 'single';
  \<close>
\<close>

definition entryStep :: "parser \<Rightarrow> jsval \<Rightarrow> rat \<times> rat \<times> jsval \<Rightarrow> rat \<times> rat \<times> jsval" where
  "entryStep pf entry acc =
     (case acc of (longSize, shortSize, mode) \<Rightarrow>
        (let size = parseNumber pf (optProp entry ''size'') 0
         in (if size > 0 then longSize + size else longSize,
             if size > 0 then shortSize else if size < 0 then shortSize + size else shortSize,
             if truthy mode then mode
             else if truthy (optProp entry ''mode'') then optProp entry ''mode''
             else (case optProp entry ''dual_mode'' of
                     JBool b \<Rightarrow> JStr (if b then ''dual_long_short'' else ''single'')
                   | _ \<Rightarrow> mode))))"

text \<open>
  \<^verbatim>\<open>normalizePositionPayload(rawPosition, contract)\<close>. The result is null (\<open>JNull\<close>) on
  a falsy payload, and otherwise the object the source builds: the array shape sums the
  entries, the object shape repairs \<^verbatim>\<open>long_size\<close> and \<^verbatim>\<open>short_size\<close> from
  \<^verbatim>\<open>size\<close>.
\<close>

definition normalizePositionPayload :: "parser \<Rightarrow> jsval \<Rightarrow> string \<Rightarrow> jsval" where
  "normalizePositionPayload pf rawPosition contract =
     (if truthy rawPosition then
        (case rawPosition of
           JArr entries \<Rightarrow>
             (case fold (entryStep pf) entries (0, 0, JNull) of
                (longSize, shortSize, mode) \<Rightarrow>
                  JObj [(''contract'', JStr contract),
                        (''long_size'', JNum longSize),
                        (''short_size'', JNum shortSize),
                        (''size'', JNum (longSize + shortSize)),
                        (''positions'', rawPosition),
                        (''mode'', orElse mode JUndefined)])
         | _ \<Rightarrow>
             (let baseContract = orElse (field rawPosition ''contract'') (JStr contract);
                  base = AList.update ''contract'' baseContract (spread rawPosition);
                  parsedSize = parseNumber pf (field rawPosition ''size'') 0;
                  longSize0 = parseNumber pf (field rawPosition ''long_size'') 0;
                  shortSize0 = parseNumber pf (field rawPosition ''short_size'') 0;
                  longSize = (if longSize0 = 0 \<or> longSize0 \<le> 0
                              then (if parsedSize > 0 then parsedSize else 0)
                              else longSize0);
                  shortSize = (if shortSize0 = 0 \<or> shortSize0 = 0
                               then (if parsedSize < 0 then parsedSize else 0)
                               else if shortSize0 > 0 then - shortSize0
                               else shortSize0);
                  base' = (case field (JObj base) ''positions'' of
                             JArr existing \<Rightarrow> base
                           | _ \<Rightarrow>
                               AList.update ''positions''
                                 (JArr ((if longSize > 0
                                         then [JObj [(''contract'', baseContract), (''size'', JNum longSize)]]
                                         else [])
                                        @ (if shortSize < 0
                                           then [JObj [(''contract'', baseContract), (''size'', JNum shortSize)]]
                                           else [])))
                                 base)
              in JObj (AList.update ''size'' (JNum (longSize + shortSize))
                        (AList.update ''short_size'' (JNum shortSize)
                          (AList.update ''long_size'' (JNum longSize) base')))))
      else JNull)"

text \<open>
  The reducer of the list fallback of \<^verbatim>\<open>getPosition\<close>, on \<^verbatim>\<open>(acc.long, acc.short)\<close>.
\<close>

definition combineStep :: "parser \<Rightarrow> jsval \<Rightarrow> rat \<times> rat \<Rightarrow> rat \<times> rat" where
  "combineStep pf pos acc =
     (case acc of (long, short) \<Rightarrow>
        (let size = parseNumber pf (field pos ''size'') 0
         in (if size > 0 then long + size else long,
             if size > 0 then short else if size < 0 then short + size else short)))"

text \<open>
  \<^verbatim>\<open>getPosition(symbol)\<close>: the single-contract endpoint first; when it fails or
  gives nothing, the list endpoint, filtered by contract. Both \<^verbatim>\<open>try\<close> blocks swallow
  their errors; reading \<^verbatim>\<open>p.contract\<close> of a null or undefined entry of the list is
  such an error, so a list that holds one gives null. The result is null or the
  normalized position.
\<close>

definition getPosition :: "parser \<Rightarrow> trader \<Rightarrow> exchange \<Rightarrow> string \<Rightarrow> jsval" where
  "getPosition pf tr ex symbol =
     (let contract = parseSymbol symbol;
          normalized =
            (case ex ''GET'' (''/api/v4/futures/'' @ settle tr @ ''/positions/'' @ contract) JNull [] of
               Inl e \<Rightarrow> JNull
             | Inr position \<Rightarrow> normalizePositionPayload pf position contract)
      in if truthy normalized then normalized
         else
           (case ex ''GET'' (''/api/v4/futures/'' @ settle tr @ ''/positions'') JNull [] of
              Inl e \<Rightarrow> JNull
            | Inr positions \<Rightarrow>
                (case positions of
                   JArr ps \<Rightarrow>
                     if list_ex nullish ps then JNull
                     else
                       (let contractPositions = filter (\<lambda>p. field p ''contract'' = JStr contract) ps
                        in if length contractPositions > 0 then
                             (case fold (combineStep pf) contractPositions (0, 0) of
                                (long, short) \<Rightarrow>
                                  JObj [(''contract'', JStr contract),
                                        (''long_size'', JNum long),
                                        (''short_size'', JNum short),
                                        (''size'', JNum (long + short)),
                                        (''positions'', JArr contractPositions)])
                           else JNull)
                 | _ \<Rightarrow> JNull)))"

text \<open>
  The \<^verbatim>\<open>find\<close> of \<^verbatim>\<open>getSideSize\<close>: the first entry whose size has the sign of the
  side, \<open>JUndefined\<close> when there is none, a TypeError when an entry before it is null
  or undefined.
\<close>

fun findSideEntry :: "parser \<Rightarrow> side \<Rightarrow> jsval list \<Rightarrow> error + jsval" where
  "findSideEntry pf side [] = Inr JUndefined"
| "findSideEntry pf side (p # ps) =
     (if nullish p then Inl TypeError
      else (let value = parseNumber pf (field p ''size'') 0
            in if (if side = Long then value > 0 else value < 0) then Inr p
               else findSideEntry pf side ps))"

text \<open>
  \<^verbatim>\<open>getSideSize(position, side)\<close>: the size of one side as a non-negative number of
  contracts.
\<close>

definition getSideSize :: "parser \<Rightarrow> jsval \<Rightarrow> side \<Rightarrow> error + rat" where
  "getSideSize pf position side =
     (if truthy position then
        (let directField = (if side = Long then field position ''long_size''
                            else field position ''short_size'')
         in if directField \<noteq> JUndefined then
              (let parsed = parseNumber pf directField 0
               in Inr (if side = Short then \<bar>parsed\<bar> else parsed))
            else
              (case (case field position ''positions'' of
                       JArr ps \<Rightarrow> findSideEntry pf side ps
                     | _ \<Rightarrow> Inr JUndefined) of
                 Inl e \<Rightarrow> Inl e
               | Inr entry \<Rightarrow>
                   if truthy entry then Inr \<bar>parseNumber pf (field entry ''size'') 0\<bar>
                   else
                     (let size = parseNumber pf (field position ''size'') 0
                      in if side = Long \<and> size > 0 then Inr size
                         else if side = Short \<and> size < 0 then Inr \<bar>size\<bar>
                         else Inr 0)))
      else Inr 0)"

section \<open>Sizing\<close>

text \<open>
  The object \<^verbatim>\<open>calculateContractsFromPercentage\<close> returns. \<open>contracts\<close> is the result
  of \<^verbatim>\<open>Math.floor\<close>, an integer; \<open>sizingPositionMode\<close> is the source's
  \<^verbatim>\<open>positionMode\<close> property (the trader already has a field of that name).
\<close>

record sizing =
  contract :: string
  contracts :: int
  contractSize :: rat
  markPrice :: rat
  baseAmount :: rat
  notionalToAllocate :: rat
  leverage :: rat
  leverageSource :: string
  percentage :: rat
  sizingPositionMode :: jsval

text \<open>
  \<^verbatim>\<open>calculateContractsFromPercentage(symbol, amount, side)\<close>. The requests are made in
  the source's order (margin account, contract, position) and every \<^verbatim>\<open>throw\<close> is
  an \<open>Inl\<close>. \<^verbatim>\<open>marginLeverage || null\<close> is \<open>marginLeverage\<close> itself: it is null or
  positive. The sizing itself is
  \<^verbatim>\<open>
    const notionalToAllocate = percentage * marginBalance * leverage;
    const baseAmount = notionalToAllocate / markPrice;
    const rawContracts = baseAmount / contractSize;
    const contracts = Math.floor(rawContracts);
  \<close>
  two products and two quotients of doubles, each rounded.
\<close>

definition calculateContractsFromPercentage ::
  "parser \<Rightarrow> trader \<Rightarrow> exchange \<Rightarrow> string \<Rightarrow> jsval \<Rightarrow> side \<Rightarrow> error + sizing" where
  "calculateContractsFromPercentage pf tr ex symbol amount side =
     (case normalizePercentage pf amount of
        Inl e \<Rightarrow> Inl e
      | Inr p \<Rightarrow>
          (let percentage = p;
               marginAccount = getMarginAccount ex symbol;
               marginLeverage = extractAccountLeverage pf marginAccount;
               marginBalance = extractMarginAvailableBalance pf marginAccount
           in if marginBalance \<le> 0 then
                Inl (Failure ''No available margin balance. Please transfer funds to your margin account for this symbol.'')
              else
                (let fallbackLeverage = marginLeverage;
                     fallbackSource = (case marginLeverage of
                                         Some l \<Rightarrow> Some ''margin''
                                       | None \<Rightarrow> None);
                     contract = parseSymbol symbol
                 in case getContract tr ex symbol of
                      Inl e \<Rightarrow> Inl e
                    | Inr contractInfo \<Rightarrow>
                        (let contractSize =
                               parseNumber pf
                                 (coalesce (optProp contractInfo ''quanto_multiplier'')
                                           (optProp contractInfo ''contract_size'')) 0;
                             markPrice =
                               parseNumber pf
                                 (orElse (orElse (optProp contractInfo ''mark_price'')
                                                 (optProp contractInfo ''last_price''))
                                         (optProp contractInfo ''index_price'')) 0
                         in if contractSize \<le> 0 then
                              Inl (Failure (''Unable to determine contract size for '' @ symbol))
                            else if markPrice \<le> 0 then
                              Inl (Failure (''Unable to determine mark price for '' @ symbol))
                            else
                              (let position = getPosition pf tr ex symbol;
                                   resolved = resolveLeverageForSide pf tr position
                                                fallbackLeverage fallbackSource side;
                                   leverage = fst resolved;
                                   leverageSource = snd resolved;
                                   positionMode = determinePositionMode tr position;
                                   notionalToAllocate = dmul (dmul percentage marginBalance) leverage;
                                   baseAmount = ddiv notionalToAllocate markPrice;
                                   rawContracts = ddiv baseAmount contractSize;
                                   contracts = \<lfloor>rawContracts\<rfloor>
                               in if contracts = 0 \<or> contracts \<le> 0 then
                                    Inl (Failure ''Calculated order size is zero. Increase percentage or ensure sufficient margin balance.'')
                                  else
                                    Inr \<lparr>contract = contract,
                                         contracts = contracts,
                                         contractSize = contractSize,
                                         markPrice = markPrice,
                                         baseAmount = baseAmount,
                                         notionalToAllocate = notionalToAllocate,
                                         leverage = leverage,
                                         leverageSource = leverageSource,
                                         percentage = percentage,
                                         sizingPositionMode = positionMode\<rparr>)))))"

text \<open>
  \<^verbatim>\<open>convertBaseAmountToContracts(symbol, amount)\<close>, with
  \<^verbatim>\<open>contracts = Math.abs(Math.floor(amount / contractSize))\<close>. The result is the pair
  of \<^verbatim>\<open>contractSize\<close> and \<^verbatim>\<open>contracts\<close>. The amount is a finite number: the
  gateway has replaced \<^verbatim>\<open>payload.amount\<close> by \<^verbatim>\<open>Number(payload.amount)\<close> and
  checked it.
\<close>

definition convertBaseAmountToContracts ::
  "parser \<Rightarrow> trader \<Rightarrow> exchange \<Rightarrow> string \<Rightarrow> rat \<Rightarrow> error + rat \<times> int" where
  "convertBaseAmountToContracts pf tr ex symbol amount =
     (case getContract tr ex symbol of
        Inl e \<Rightarrow> Inl e
      | Inr contractInfo \<Rightarrow>
          (let contractSize =
                 parseNumber pf
                   (coalesce (optProp contractInfo ''quanto_multiplier'')
                             (optProp contractInfo ''contract_size'')) 0
           in if contractSize \<le> 0 then
                Inl (Failure (''Unable to determine contract size for '' @ symbol))
              else Inr (contractSize, \<bar>\<lfloor>ddiv amount contractSize\<rfloor>\<bar>)))"

section \<open>Orders\<close>

text \<open>
  The body of an order request, as the four actions build it, and the request that
  submits it. An action returns its outcome (the error thrown or the value returned)
  together with the list of the order bodies it has posted, in order: an action that
  submits nothing returns the empty list.
\<close>

definition orderBody :: "string \<Rightarrow> rat \<Rightarrow> string \<Rightarrow> bool \<Rightarrow> jsval" where
  "orderBody c orderSize label reduceOnly =
     JObj [(''contract'', JStr c), (''size'', JNum orderSize), (''price'', JStr ''0''),
           (''tif'', JStr ''ioc''), (''text'', JStr label), (''reduce_only'', JBool reduceOnly)]"

definition postOrder :: "trader \<Rightarrow> exchange \<Rightarrow> jsval \<Rightarrow> error + jsval" where
  "postOrder tr ex order = ex ''POST'' (''/api/v4/futures/'' @ settle tr @ ''/orders'') order []"

definition noPosition :: "string \<Rightarrow> jsval" where
  "noPosition message = JObj [(''status'', JStr ''no_position''), (''message'', JStr message)]"

definition noAction :: jsval where
  "noAction = JObj [(''status'', JStr ''no_action''),
                    (''message'', JStr ''Requested close size is below minimum contract size'')]"

text \<open>\<^verbatim>\<open>marketBuy(symbol, amount)\<close>: open long.\<close>

definition marketBuy ::
  "parser \<Rightarrow> trader \<Rightarrow> exchange \<Rightarrow> string \<Rightarrow> jsval \<Rightarrow> (error + jsval) \<times> jsval list" where
  "marketBuy pf tr ex symbol amount =
     (case calculateContractsFromPercentage pf tr ex symbol amount Long of
        Inl e \<Rightarrow> (Inl e, [])
      | Inr s \<Rightarrow>
          (let order = orderBody (contract s) (of_int (contracts s)) ''t-long-entry'' False
           in (case postOrder tr ex order of
                 Inl e \<Rightarrow> Inl (Wrapped ''Market buy (long entry) failed: '' e)
               | Inr result \<Rightarrow> Inr result,
               [order])))"

text \<open>\<^verbatim>\<open>openShort(symbol, amount)\<close>: open short, the size negated.\<close>

definition openShort ::
  "parser \<Rightarrow> trader \<Rightarrow> exchange \<Rightarrow> string \<Rightarrow> jsval \<Rightarrow> (error + jsval) \<times> jsval list" where
  "openShort pf tr ex symbol amount =
     (case calculateContractsFromPercentage pf tr ex symbol amount Short of
        Inl e \<Rightarrow> (Inl e, [])
      | Inr s \<Rightarrow>
          (let order = orderBody (contract s) (- of_int (contracts s)) ''t-short-entry'' False
           in (case postOrder tr ex order of
                 Inl e \<Rightarrow> Inl (Wrapped ''Open short failed: '' e)
               | Inr result \<Rightarrow> Inr result,
               [order])))"

text \<open>
  \<^verbatim>\<open>marketSell(symbol, amount)\<close>: close long. The whole body stands in one
  \<^verbatim>\<open>try\<close>, whose \<^verbatim>\<open>catch\<close> wraps whatever was thrown.
\<close>

definition marketSell ::
  "parser \<Rightarrow> trader \<Rightarrow> exchange \<Rightarrow> string \<Rightarrow> rat \<Rightarrow> (error + jsval) \<times> jsval list" where
  "marketSell pf tr ex symbol amount =
     (let contract = parseSymbol symbol;
          position = getPosition pf tr ex symbol
      in case convertBaseAmountToContracts pf tr ex symbol amount of
           Inl e \<Rightarrow> (Inl (Wrapped ''Market sell (long exit) failed: '' e), [])
         | Inr converted \<Rightarrow>
             (let requestedContracts = snd converted;
                  mode = determinePositionMode tr position;
                  isDualMode = (mode = JStr ''dual_long_short'')
              in case getSideSize pf position Long of
                   Inl e \<Rightarrow> (Inl (Wrapped ''Market sell (long exit) failed: '' e), [])
                 | Inr longSize \<Rightarrow>
                     if \<not> truthy position \<or> longSize \<le> 0 then
                       (Inr (noPosition ''No long position to close''), [])
                     else if requestedContracts = 0 \<or> requestedContracts \<le> 0 then
                       (Inr noAction, [])
                     else
                       (let sizeToClose = (if isDualMode
                                           then min (of_int requestedContracts) \<bar>longSize\<bar>
                                           else of_int requestedContracts);
                            order = orderBody contract (- sizeToClose) ''t-long-exit'' True
                        in (case postOrder tr ex order of
                              Inl e \<Rightarrow> Inl (Wrapped ''Market sell (long exit) failed: '' e)
                            | Inr result \<Rightarrow> Inr result,
                            [order]))))"

text \<open>\<^verbatim>\<open>closeShort(symbol, amount)\<close>: close short, the size positive.\<close>

definition closeShort ::
  "parser \<Rightarrow> trader \<Rightarrow> exchange \<Rightarrow> string \<Rightarrow> rat \<Rightarrow> (error + jsval) \<times> jsval list" where
  "closeShort pf tr ex symbol amount =
     (let contract = parseSymbol symbol;
          position = getPosition pf tr ex symbol
      in case convertBaseAmountToContracts pf tr ex symbol amount of
           Inl e \<Rightarrow> (Inl (Wrapped ''Close short failed: '' e), [])
         | Inr converted \<Rightarrow>
             (let requestedContracts = snd converted;
                  mode = determinePositionMode tr position;
                  isDualMode = (mode = JStr ''dual_long_short'')
              in case getSideSize pf position Short of
                   Inl e \<Rightarrow> (Inl (Wrapped ''Close short failed: '' e), [])
                 | Inr shortSize \<Rightarrow>
                     if \<not> truthy position \<or> shortSize \<le> 0 then
                       (Inr (noPosition ''No short position to close''), [])
                     else if requestedContracts = 0 \<or> requestedContracts \<le> 0 then
                       (Inr noAction, [])
                     else
                       (let sizeToClose = (if isDualMode
                                           then min (of_int requestedContracts) \<bar>shortSize\<bar>
                                           else of_int requestedContracts);
                            order = orderBody contract sizeToClose ''t-short-exit'' True
                        in (case postOrder tr ex order of
                              Inl e \<Rightarrow> Inl (Wrapped ''Close short failed: '' e)
                            | Inr result \<Rightarrow> Inr result,
                            [order]))))"

section \<open>The webhook handler\<close>

text \<open>
  The payload \<^verbatim>\<open>handleWebhook\<close> destructures, after the gateway has checked it:
  \<^verbatim>\<open>amount\<close> and \<^verbatim>\<open>leverage\<close> are finite numbers by then. The fields carry a
  prefix because \<open>leverage\<close> already names a field of the sizing.
\<close>

record signal =
  sigAction :: string
  sigAmount :: rat
  sigSymbol :: string
  sigLeverage :: rat
  sigValidateOnly :: bool

text \<open>
  \<^verbatim>\<open>handleWebhook(payload, env, context)\<close> on the live trader. The source calls
  \<^verbatim>\<open>
    case 'long_entry':  result = await trader.marketBuy(symbol, amount, leverage, requestContext);
    case 'long_exit':   result = await trader.marketSell(symbol, amount, requestContext);
    case 'short_entry': result = await trader.openShort(symbol, amount, leverage, requestContext);
    case 'short_exit':  result = await trader.closeShort(symbol, amount, requestContext);
  \<close>
  and the trader declares \<^verbatim>\<open>marketBuy(symbol, amount)\<close>, \<^verbatim>\<open>marketSell(symbol, amount)\<close>,
  \<^verbatim>\<open>openShort(symbol, amount)\<close> and \<^verbatim>\<open>closeShort(symbol, amount)\<close>: JavaScript drops
  the arguments a function does not declare, so \<open>leverage\<close> reaches none of them. The
  test trader, the trade log and the \<^verbatim>\<open>timestamp\<close> of the returned object are left
  out; the \<^verbatim>\<open>catch\<close> throws again what it caught.
\<close>

definition handleWebhook ::
  "parser \<Rightarrow> trader \<Rightarrow> exchange \<Rightarrow> signal \<Rightarrow> (error + jsval) \<times> jsval list" where
  "handleWebhook pf tr ex payload =
     (let action = sigAction payload;
          amount = sigAmount payload;
          symbol = sigSymbol payload;
          leverage = sigLeverage payload
      in if sigValidateOnly payload then
           (case getContract tr ex symbol of
              Inl e \<Rightarrow> (Inl (Wrapped (''Invalid symbol '' @ symbol @ '': '') e), [])
            | Inr info \<Rightarrow> (Inr (JObj [(''status'', JStr ''validated'')]), []))
         else
           (case (if action = ''long_entry'' then marketBuy pf tr ex symbol (JNum amount)
                  else if action = ''long_exit'' then marketSell pf tr ex symbol amount
                  else if action = ''short_entry'' then openShort pf tr ex symbol (JNum amount)
                  else if action = ''short_exit'' then closeShort pf tr ex symbol amount
                  else (Inl (Failure (''Unknown action: '' @ action)), [])) of
              (Inl e, posted) \<Rightarrow> (Inl e, posted)
            | (Inr result, posted) \<Rightarrow>
                (Inr (JObj [(''action'', JStr action), (''symbol'', JStr symbol),
                            (''amount'', JNum amount), (''order'', result)]),
                 posted)))"

section \<open>The position invariant\<close>

text \<open>
  What a normalized position promises its readers: \<^verbatim>\<open>long_size\<close>, \<^verbatim>\<open>short_size\<close>
  and \<^verbatim>\<open>size\<close> are finite numbers, the long side is not negative, the short side is
  not positive, and \<^verbatim>\<open>size\<close> is their sum.
\<close>

fun asNumber :: "jsval \<Rightarrow> rat option" where
  "asNumber (JNum r) = Some r"
| "asNumber v = None"

definition positionInvariant :: "jsval \<Rightarrow> bool" where
  "positionInvariant p =
     (case asNumber (field p ''long_size'') of
        None \<Rightarrow> False
      | Some l \<Rightarrow>
          (case asNumber (field p ''short_size'') of
             None \<Rightarrow> False
           | Some s \<Rightarrow>
               (case asNumber (field p ''size'') of
                  None \<Rightarrow> False
                | Some z \<Rightarrow> 0 \<le> l \<and> s \<le> 0 \<and> z = l + s)))"

section \<open>Concrete scenarios\<close>

text \<open>
  A trader as \<^verbatim>\<open>handleWebhook\<close> builds it from an empty environment, and the
  exchanges, payloads and numbers of the evaluations below. Every exchange answers the
  requests it lists and fails on every other one.
\<close>

definition liveTrader :: trader where
  "liveTrader = \<lparr>settle = ''usdt'', positionMode = ''dual_long_short'', defaultLeverage = 1\<rparr>"

text \<open>
  An account with 1000 available, a contract of size 1 marked at 100, and a flat
  position whose leverage is 5.
\<close>

definition sizingExchange :: exchange where
  "sizingExchange method endpoint body queryParams =
     (if method = ''GET'' \<and> endpoint = ''/api/v4/margin/user/account'' then
        Inr (JObj [(''quote'', JObj [(''available'', JNum 1000)])])
      else if method = ''GET'' \<and> endpoint = ''/api/v4/futures/usdt/contracts/BTC_USDT'' then
        Inr (JObj [(''quanto_multiplier'', JNum 1), (''mark_price'', JNum 100)])
      else if method = ''GET'' \<and> endpoint = ''/api/v4/futures/usdt/positions/BTC_USDT'' then
        Inr (JObj [(''size'', JNum 0), (''leverage'', JNum 5)])
      else if method = ''POST'' \<and> endpoint = ''/api/v4/futures/usdt/orders'' then
        Inr (JObj [(''id'', JNum 1)])
      else Inl (RequestError ''not found''))"

text \<open>Three contracts long and four short, in the array shape; a contract of size 1.\<close>

definition closingExchange :: exchange where
  "closingExchange method endpoint body queryParams =
     (if method = ''GET'' \<and> endpoint = ''/api/v4/futures/usdt/contracts/BTC_USDT'' then
        Inr (JObj [(''quanto_multiplier'', JNum 1)])
      else if method = ''GET'' \<and> endpoint = ''/api/v4/futures/usdt/positions/BTC_USDT'' then
        Inr (JArr [JObj [(''size'', JNum 3)], JObj [(''size'', JNum (- 4))]])
      else if method = ''POST'' \<and> endpoint = ''/api/v4/futures/usdt/orders'' then
        Inr (JObj [(''id'', JNum 2)])
      else Inl (RequestError ''not found''))"

text \<open>No position at all: only the contract is there.\<close>

definition flatExchange :: exchange where
  "flatExchange method endpoint body queryParams =
     (if method = ''GET'' \<and> endpoint = ''/api/v4/futures/usdt/contracts/BTC_USDT'' then
        Inr (JObj [(''quanto_multiplier'', JNum 1)])
      else Inl (RequestError ''not found''))"

text \<open>The single-position endpoint fails and the list endpoint answers.\<close>

definition listExchange :: exchange where
  "listExchange method endpoint body queryParams =
     (if method = ''GET'' \<and> endpoint = ''/api/v4/futures/usdt/positions'' then
        Inr (JArr [JObj [(''contract'', JStr ''BTC_USDT''), (''size'', JNum 2)],
                   JObj [(''contract'', JStr ''ETH_USDT''), (''size'', JNum 7)],
                   JObj [(''contract'', JStr ''BTC_USDT''), (''size'', JNum (- 1))]])
      else Inl (RequestError ''not found''))"

text \<open>The doubles nearest to 0.1 and to 0.3.\<close>

definition tenth :: rat where
  "tenth = 3602879701896397 / 36028797018963968"

definition threeTenths :: rat where
  "threeTenths = 5404319552844595 / 18014398509481984"

text \<open>
  An account with a given available balance, a contract with a given size and a given
  mark price, and no position; the account carries no leverage, so the default applies.
\<close>

definition plainExchange :: "rat \<Rightarrow> rat \<Rightarrow> rat \<Rightarrow> exchange" where
  "plainExchange available cs mp method endpoint body queryParams =
     (if method = ''GET'' \<and> endpoint = ''/api/v4/margin/user/account'' then
        Inr (JObj [(''quote'', JObj [(''available'', JNum available)])])
      else if method = ''GET'' \<and> endpoint = ''/api/v4/futures/usdt/contracts/BTC_USDT'' then
        Inr (JObj [(''quanto_multiplier'', JNum cs), (''mark_price'', JNum mp)])
      else if method = ''POST'' \<and> endpoint = ''/api/v4/futures/usdt/orders'' then
        Inr (JObj [(''id'', JNum 3)])
      else Inl (RequestError ''not found''))"

text \<open>An exchange that cannot be reached.\<close>

definition downExchange :: exchange where
  "downExchange method endpoint body queryParams = Inl (RequestError ''unreachable'')"

text \<open>A position payload with a leverage for each side and one for both.\<close>

definition leveragedPosition :: jsval where
  "leveragedPosition = JObj [(''long_leverage'', JNum 20), (''short_leverage'', JNum 15),
                             (''leverage'', JNum 10)]"

text \<open>A long entry of 10 percent that asks for a leverage of 10.\<close>

definition entrySignal :: signal where
  "entrySignal = \<lparr>sigAction = ''long_entry'', sigAmount = 10, sigSymbol = ''BTC/USDT'',
                   sigLeverage = 10, sigValidateOnly = False\<rparr>"

section \<open>Evaluating the scenarios\<close>

lemma floor_rat_numeral:
  "\<lfloor>numeral a / numeral b :: rat\<rfloor> = numeral a div numeral b"
  by (metis floor_divide_of_int_eq of_int_numeral)

lemma ceiling_rat_numeral:
  "\<lceil>numeral a / numeral b :: rat\<rceil> = - (- numeral a div numeral b)"
  unfolding ceiling_def
  by (metis divide_minus_left floor_divide_of_int_eq of_int_minus of_int_numeral)

lemmas double_eval =
  toDouble_def exponentOf_def pow2_def roundHalfEven_def dmul_def ddiv_def Let_def
  floor_rat_numeral ceiling_rat_numeral

text \<open>
  The roundings the scenarios meet. \<^verbatim>\<open>10 / 100\<close> is the double nearest to 0.1 and
  \<^verbatim>\<open>30 / 100\<close> the one nearest to 0.3; \<^verbatim>\<open>0.3 * 10\<close> is 3 and \<^verbatim>\<open>1 / 0.1\<close> is 10, both
  above the exact results; \<^verbatim>\<open>0.29 * 100\<close> is \<^verbatim>\<open>28.999999999999996\<close> and
  \<^verbatim>\<open>0.3 / 0.1\<close> is \<^verbatim>\<open>2.9999999999999996\<close>.
\<close>

lemma double_integers:
  "toDouble 1 = 1" "toDouble 3 = 3" "toDouble 5 = 5" "toDouble 10 = 10"
  "toDouble 28 = 28" "toDouble 100 = 100" "toDouble 500 = 500"
  by (simp_all add: double_eval)

lemma double_fractions:
  "ddiv 10 100 = tenth"
  "ddiv 30 100 = threeTenths"
  "ddiv 29 100 = 5224175567749775 / 18014398509481984"
  by (simp_all add: double_eval tenth_def threeTenths_def)

lemma double_products:
  "dmul tenth 1000 = 100"
  "dmul tenth 100 = 10"
  "dmul threeTenths 10 = 3"
  "dmul (5224175567749775 / 18014398509481984) 100 = 8162774324609023 / 281474976710656"
  by (simp_all add: double_eval tenth_def threeTenths_def)


lemma double_small:
  "ddiv x 1 = toDouble x" "dmul x 1 = toDouble x" "dmul 1 x = toDouble x"
  by (simp_all add: dmul_def ddiv_def)

lemma liveTrader_fields:
  "settle liveTrader = ''usdt''"
  "positionMode liveTrader = ''dual_long_short''"
  "defaultLeverage liveTrader = 1"
  by (simp_all add: liveTrader_def)

lemma sizing_margin:
  "getMarginAccount sizingExchange ''BTC/USDT''
     = JObj [(''quote'', JObj [(''available'', JNum 1000)])]"
  by (simp add: getMarginAccount_def sizingExchange_def parseSymbol_def)

lemma sizing_contract:
  "getContract liveTrader sizingExchange ''BTC/USDT''
     = Inr (JObj [(''quanto_multiplier'', JNum 1), (''mark_price'', JNum 100)])"
  by (simp add: getContract_def sizingExchange_def liveTrader_fields parseSymbol_def)

lemma sizing_position:
  "getPosition noParse liveTrader sizingExchange ''BTC/USDT''
     = JObj [(''size'', JNum 0), (''leverage'', JNum 5), (''contract'', JStr ''BTC_USDT''),
             (''positions'', JArr []), (''long_size'', JNum 0), (''short_size'', JNum 0)]"
  by (simp add: getPosition_def sizingExchange_def liveTrader_fields parseSymbol_def
        normalizePositionPayload_def parseNumber_def orElse_def Let_def)

lemma percent_ten: "normalizePercentage noParse (JNum 10) = Inr tenth"
  by (simp add: normalizePercentage_def parseNumberOrNull_def double_fractions)

lemma sizing_entry:
  "calculateContractsFromPercentage noParse liveTrader sizingExchange ''BTC/USDT'' (JNum 10) sd
     = Inr \<lparr>contract = ''BTC_USDT'', contracts = 5, contractSize = 1, markPrice = 100,
              baseAmount = 5, notionalToAllocate = 500, leverage = 5,
              leverageSource = ''position'', percentage = tenth,
              sizingPositionMode = JStr ''dual_long_short''\<rparr>"
proof -
  have n: "dmul (dmul tenth 1000) 5 = 500"
    by (simp add: double_products) (simp add: double_eval)
  have b: "ddiv 500 100 = 5"
    by (simp add: double_eval)
  have r: "ddiv 5 1 = 5"
    by (simp add: double_small double_integers)
  show ?thesis
    by (simp add: calculateContractsFromPercentage_def percent_ten
          sizing_margin sizing_contract sizing_position extractAccountLeverage_def
          extractMarginAvailableBalance_def parseNumber_def optProp_def nullish_def coalesce_def
          orElse_def resolveLeverageForSide_def determinePositionMode_def liveTrader_fields
          parseSymbol_def n b r)
qed

lemma plain_margin:
  "getMarginAccount (plainExchange available cs mp) ''BTC/USDT''
     = JObj [(''quote'', JObj [(''available'', JNum available)])]"
  by (simp add: getMarginAccount_def plainExchange_def parseSymbol_def)

lemma plain_contract:
  "getContract liveTrader (plainExchange available cs mp) ''BTC/USDT''
     = Inr (JObj [(''quanto_multiplier'', JNum cs), (''mark_price'', JNum mp)])"
  by (simp add: getContract_def plainExchange_def liveTrader_fields parseSymbol_def)

lemma plain_position:
  "getPosition noParse liveTrader (plainExchange available cs mp) ''BTC/USDT'' = JNull"
  by (simp add: getPosition_def plainExchange_def liveTrader_fields parseSymbol_def)

text \<open>
  The sizing on a plain exchange, with every guard passed: the leverage is the default 1
  and the count is the floor of the rounded quotient.
\<close>

lemma plain_sizing:
  assumes "normalizePercentage noParse amount = Inr p"
    and "0 < available" and "0 < cs" and "0 < mp"
    and "0 < \<lfloor>ddiv (ddiv (dmul (dmul p available) 1) mp) cs\<rfloor>"
  shows "calculateContractsFromPercentage noParse liveTrader (plainExchange available cs mp)
           ''BTC/USDT'' amount sd
         = Inr \<lparr>contract = ''BTC_USDT'',
                 contracts = \<lfloor>ddiv (ddiv (dmul (dmul p available) 1) mp) cs\<rfloor>,
                 contractSize = cs, markPrice = mp,
                 baseAmount = ddiv (dmul (dmul p available) 1) mp,
                 notionalToAllocate = dmul (dmul p available) 1, leverage = 1,
                 leverageSource = ''default'', percentage = p,
                 sizingPositionMode = JStr ''dual_long_short''\<rparr>"
  using assms
  by (simp add: calculateContractsFromPercentage_def plain_margin plain_contract plain_position
        extractAccountLeverage_def extractMarginAvailableBalance_def parseNumber_def optProp_def
        nullish_def coalesce_def orElse_def resolveLeverageForSide_def determinePositionMode_def
        liveTrader_fields parseSymbol_def Let_def
        del: floor_le_zero zero_less_floor floor_less_zero zero_le_floor)

section \<open>Percentage normalisation\<close>


text \<open>
  The equality also fails above \<open>1/100\<close>, by rounding alone. With \<open>a\<close> the double nearest
  to 0.013, \<^verbatim>\<open>a * 100\<close> is above 1 and \<^verbatim>\<open>(a * 100) / 100\<close> is not \<open>a\<close> again; with
  \<open>a\<close> the double nearest to 0.01, which is above \<open>1/100\<close>, \<^verbatim>\<open>a * 100\<close> is 1 and is
  taken as the fraction 1.
\<close>

lemma normalizePercentage_rounding_example:
  "normalizePercentage noParse (JNum (toDouble (13 / 1000))) = Inr (toDouble (13 / 1000))"
  "normalizePercentage noParse (JNum (dmul (toDouble (13 / 1000)) 100))
     = Inr (3746994889972253 / 288230376151711744)"
  "toDouble (13 / 1000) = 7493989779944505 / 576460752303423488"
  "1 / 100 < toDouble (1 / 100)"
  "normalizePercentage noParse (JNum (dmul (toDouble (1 / 100)) 100)) = Inr 1"
  by (simp_all add: normalizePercentage_def parseNumberOrNull_def double_eval)



section \<open>Open sizing\<close>

text \<open>
  C2 (as stated, refuted): the contract count is
  \<open>\<lfloor>p \<times> available \<times> leverage / markPrice / contractSize\<rfloor>\<close>. The source floors the
  rounded quotient. An amount of 30 normalises to the double nearest to 0.3, which is
  below 0.3; with 10 available, leverage 1, mark price 1 and contract size 1 the
  product rounds up to 3 and the count is 3, where the floor of the exact expression is
  2. And an amount of 29 with 100 available gives the count 28, where the expression on
  the decimal \<open>29/100\<close> gives 29.
\<close>

theorem sizing_rounding_counterexample:
  "normalizePercentage noParse (JNum 30) = Inr threeTenths
   \<and> map_sum id contracts
        (calculateContractsFromPercentage noParse liveTrader (plainExchange 10 1 1)
           ''BTC/USDT'' (JNum 30) Long) = Inr 3
   \<and> \<lfloor>threeTenths * 10 * 1 / 1 / 1\<rfloor> = 2
   \<and> map_sum id contracts
        (calculateContractsFromPercentage noParse liveTrader (plainExchange 100 1 1)
           ''BTC/USDT'' (JNum 29) Long) = Inr 28
   \<and> \<lfloor>29 / 100 * 100 * 1 / 1 / 1 :: rat\<rfloor> = 29"
proof -
  have a: "normalizePercentage noParse (JNum 30) = Inr threeTenths"
    by (simp add: normalizePercentage_def parseNumberOrNull_def double_fractions)
  have q: "ddiv (ddiv (dmul (dmul threeTenths 10) 1) 1) 1 = 3"
    by (simp add: double_products double_small double_integers)
  have s: "calculateContractsFromPercentage noParse liveTrader (plainExchange 10 1 1)
             ''BTC/USDT'' (JNum 30) Long
           = Inr \<lparr>contract = ''BTC_USDT'',
                   contracts = \<lfloor>ddiv (ddiv (dmul (dmul threeTenths 10) 1) 1) 1\<rfloor>,
                   contractSize = 1, markPrice = 1,
                   baseAmount = ddiv (dmul (dmul threeTenths 10) 1) 1,
                   notionalToAllocate = dmul (dmul threeTenths 10) 1, leverage = 1,
                   leverageSource = ''default'', percentage = threeTenths,
                   sizingPositionMode = JStr ''dual_long_short''\<rparr>"
    by (rule plain_sizing [OF a]) (simp_all add: q)
  have b: "normalizePercentage noParse (JNum 29) = Inr (5224175567749775 / 18014398509481984)"
    by (simp add: normalizePercentage_def parseNumberOrNull_def double_fractions)
  have d: "toDouble (8162774324609023 / 281474976710656) = 8162774324609023 / 281474976710656"
    by (simp add: double_eval)
  have q': "ddiv (ddiv (dmul (dmul (5224175567749775 / 18014398509481984) 100) 1) 1) 1
              = 8162774324609023 / 281474976710656"
    by (simp add: double_products double_small d)
  have f': "\<lfloor>8162774324609023 / 281474976710656 :: rat\<rfloor> = 28"
    by (simp add: floor_rat_numeral)
  have s': "calculateContractsFromPercentage noParse liveTrader (plainExchange 100 1 1)
             ''BTC/USDT'' (JNum 29) Long
           = Inr \<lparr>contract = ''BTC_USDT'',
                   contracts = \<lfloor>ddiv (ddiv (dmul (dmul (5224175567749775 / 18014398509481984) 100) 1) 1) 1\<rfloor>,
                   contractSize = 1, markPrice = 1,
                   baseAmount = ddiv (dmul (dmul (5224175567749775 / 18014398509481984) 100) 1) 1,
                   notionalToAllocate = dmul (dmul (5224175567749775 / 18014398509481984) 100) 1,
                   leverage = 1,
                   leverageSource = ''default'',
                   percentage = 5224175567749775 / 18014398509481984,
                   sizingPositionMode = JStr ''dual_long_short''\<rparr>"
    by (rule plain_sizing [OF b]) (simp_all add: q' f')
  have e: "\<lfloor>threeTenths * 10\<rfloor> = 2"
    by (simp add: threeTenths_def floor_rat_numeral)
  show ?thesis
    by (simp add: a s s' q q' f' e)
qed

text \<open>
  C2 (amended): when the amount normalises to \<open>p\<close>, the margin account has
  \<open>available > 0\<close>, the contract gives a size \<open>cs > 0\<close> and a mark price \<open>mp > 0\<close>, and
  the leverage resolves to \<open>lev\<close>, the contract count computed is the floor of
  \<open>((p \<times> available) \<times> lev) / mp / cs\<close> evaluated in double arithmetic, every product
  and quotient rounded to the nearest double: it is the count returned when it is
  positive, and the sizing fails as too small when it is not. The witness is the
  instance of an amount of 10 percent, \<open>available = 1000\<close>, \<open>lev = 5\<close>, \<open>mp = 100\<close>,
  \<open>cs = 1\<close>, which gives 5 contracts.
\<close>

theorem sizing_contracts_floor:
  assumes "normalizePercentage pf amount = Inr p"
    and "extractMarginAvailableBalance pf (getMarginAccount ex symbol) = available"
    and "0 < available"
    and "getContract tr ex symbol = Inr info"
    and "parseNumber pf (coalesce (optProp info ''quanto_multiplier'')
                                  (optProp info ''contract_size'')) 0 = cs"
    and "0 < cs"
    and "parseNumber pf (orElse (orElse (optProp info ''mark_price'') (optProp info ''last_price''))
                                (optProp info ''index_price'')) 0 = mp"
    and "0 < mp"
    and "fst (resolveLeverageForSide pf tr (getPosition pf tr ex symbol)
               (extractAccountLeverage pf (getMarginAccount ex symbol))
               (case extractAccountLeverage pf (getMarginAccount ex symbol) of
                  Some l \<Rightarrow> Some ''margin'' | None \<Rightarrow> None)
               side) = lev"
  shows "map_sum id contracts (calculateContractsFromPercentage pf tr ex symbol amount side)
         = (if 0 < \<lfloor>ddiv (ddiv (dmul (dmul p available) lev) mp) cs\<rfloor>
            then Inr \<lfloor>ddiv (ddiv (dmul (dmul p available) lev) mp) cs\<rfloor>
            else Inl (Failure ''Calculated order size is zero. Increase percentage or ensure sufficient margin balance.''))"
proof -
  define k where "k = \<lfloor>ddiv (ddiv (dmul (dmul p available) lev) mp) cs\<rfloor>"
  have "calculateContractsFromPercentage pf tr ex symbol amount side
          = (if k = 0 \<or> k \<le> 0
             then Inl (Failure ''Calculated order size is zero. Increase percentage or ensure sufficient margin balance.'')
             else Inr \<lparr>contract = parseSymbol symbol, contracts = k, contractSize = cs,
                       markPrice = mp, baseAmount = ddiv (dmul (dmul p available) lev) mp,
                       notionalToAllocate = dmul (dmul p available) lev, leverage = lev,
                       leverageSource =
                         snd (resolveLeverageForSide pf tr (getPosition pf tr ex symbol)
                                (extractAccountLeverage pf (getMarginAccount ex symbol))
                                (case extractAccountLeverage pf (getMarginAccount ex symbol) of
                                   Some l \<Rightarrow> Some ''margin'' | None \<Rightarrow> None)
                                side),
                       percentage = p,
                       sizingPositionMode = determinePositionMode tr (getPosition pf tr ex symbol)\<rparr>)"
    unfolding k_def using assms
    by (simp add: calculateContractsFromPercentage_def Let_def
          del: floor_le_zero zero_less_floor floor_less_zero zero_le_floor)
  then have "map_sum id contracts (calculateContractsFromPercentage pf tr ex symbol amount side)
          = (if 0 < k then Inr k
             else Inl (Failure ''Calculated order size is zero. Increase percentage or ensure sufficient margin balance.''))"
    by (cases "0 < k") auto
  then show ?thesis
    unfolding k_def .
qed

theorem sizing_contracts_floor_witness:
  "normalizePercentage noParse (JNum 10) = Inr tenth
   \<and> \<lfloor>ddiv (ddiv (dmul (dmul tenth 1000) 5) 100) 1\<rfloor> = 5
   \<and> map_sum id contracts
        (calculateContractsFromPercentage noParse liveTrader sizingExchange ''BTC/USDT'' (JNum 10) Long)
      = Inr 5"
proof -
  have b: "extractMarginAvailableBalance noParse (getMarginAccount sizingExchange ''BTC/USDT'') = 1000"
    by (simp add: sizing_margin extractMarginAvailableBalance_def parseNumber_def)
  have c: "(0::rat) < 1000" by simp
  have e: "parseNumber noParse
             (coalesce (optProp (JObj [(''quanto_multiplier'', JNum 1), (''mark_price'', JNum 100)])
                                ''quanto_multiplier'')
                       (optProp (JObj [(''quanto_multiplier'', JNum 1), (''mark_price'', JNum 100)])
                                ''contract_size'')) 0 = 1"
    by (simp add: optProp_def nullish_def coalesce_def parseNumber_def)
  have f: "(0::rat) < 1" by simp
  have g: "parseNumber noParse
             (orElse (orElse (optProp (JObj [(''quanto_multiplier'', JNum 1), (''mark_price'', JNum 100)])
                                      ''mark_price'')
                             (optProp (JObj [(''quanto_multiplier'', JNum 1), (''mark_price'', JNum 100)])
                                      ''last_price''))
                     (optProp (JObj [(''quanto_multiplier'', JNum 1), (''mark_price'', JNum 100)])
                              ''index_price'')) 0 = 100"
    by (simp add: optProp_def nullish_def orElse_def parseNumber_def)
  have h: "(0::rat) < 100" by simp
  have i: "fst (resolveLeverageForSide noParse liveTrader
                  (getPosition noParse liveTrader sizingExchange ''BTC/USDT'')
                  (extractAccountLeverage noParse (getMarginAccount sizingExchange ''BTC/USDT''))
                  (case extractAccountLeverage noParse (getMarginAccount sizingExchange ''BTC/USDT'') of
                     Some l \<Rightarrow> Some ''margin'' | None \<Rightarrow> None)
                  Long) = 5"
    by (simp add: sizing_position sizing_margin resolveLeverageForSide_def parseNumber_def)
  have q: "ddiv (ddiv (dmul (dmul tenth 1000) 5) 100) 1 = 5"
    by (simp add: double_products double_small) (simp add: double_eval)
  show ?thesis
    using sizing_contracts_floor [OF percent_ten b c sizing_contract e f g h i] percent_ten
    by (simp add: q)
qed




section \<open>Leverage resolution\<close>

lemma parsed_field_truthy: "0 < parseNumber pf (field v k) 0 \<Longrightarrow> truthy v"
  by (cases v) (simp_all add: parseNumber_def)

text \<open>
  C5: with a positive account-level fallback \<open>f\<close>, a position payload whose leverage
  for the requested side parses to a positive number resolves to that number with
  source \<open>position\<close>, for the long side and for the short side; and when the side's
  own field is not positive but the payload's \<open>leverage\<close> is, that one is taken, again
  with source \<open>position\<close>. The fallback is never returned.
\<close>

theorem position_leverage_wins:
  assumes "0 < f"
  shows "(0 < parseNumber pf (field position ''long_leverage'') 0 \<longrightarrow>
            resolveLeverageForSide pf tr position (Some f) src Long
              = (parseNumber pf (field position ''long_leverage'') 0, ''position''))
       \<and> (0 < parseNumber pf (field position ''short_leverage'') 0 \<longrightarrow>
            resolveLeverageForSide pf tr position (Some f) src Short
              = (parseNumber pf (field position ''short_leverage'') 0, ''position''))
       \<and> (parseNumber pf (field position (if side = Short then ''short_leverage''
                                            else ''long_leverage'')) 0 \<le> 0
            \<and> 0 < parseNumber pf (field position ''leverage'') 0 \<longrightarrow>
            resolveLeverageForSide pf tr position (Some f) src side
              = (parseNumber pf (field position ''leverage'') 0, ''position''))"
  by (auto simp add: resolveLeverageForSide_def Let_def dest: parsed_field_truthy)

theorem position_leverage_wins_witness:
  "(0::rat) < 3
   \<and> 0 < parseNumber noParse (field leveragedPosition ''long_leverage'') 0
   \<and> resolveLeverageForSide noParse liveTrader leveragedPosition (Some 3) (Some ''margin'') Long
       = (20, ''position'')
   \<and> 0 < parseNumber noParse (field leveragedPosition ''short_leverage'') 0
   \<and> resolveLeverageForSide noParse liveTrader leveragedPosition (Some 3) (Some ''margin'') Short
       = (15, ''position'')"
  using position_leverage_wins [of 3 noParse leveragedPosition liveTrader "Some ''margin''" Long]
  by (simp add: leveragedPosition_def parseNumber_def)

section \<open>Close sizing\<close>






section \<open>The normalized position\<close>


lemma entryStep_signs:
  assumes "0 \<le> fst acc" and "fst (snd acc) \<le> 0"
  shows "0 \<le> fst (entryStep pf entry acc) \<and> fst (snd (entryStep pf entry acc)) \<le> 0"
  using assms by (cases acc) (simp add: entryStep_def Let_def)

lemma fold_entryStep_signs:
  assumes "0 \<le> fst acc" and "fst (snd acc) \<le> 0"
  shows "0 \<le> fst (fold (entryStep pf) entries acc)
       \<and> fst (snd (fold (entryStep pf) entries acc)) \<le> 0"
  using assms
proof (induction entries arbitrary: acc)
  case Nil
  then show ?case by simp
next
  case (Cons e es)
  then show ?case
    using entryStep_signs [of acc pf e] by simp
qed

lemma combineStep_signs:
  assumes "0 \<le> fst acc" and "snd acc \<le> 0"
  shows "0 \<le> fst (combineStep pf pos acc) \<and> snd (combineStep pf pos acc) \<le> 0"
  using assms by (cases acc) (simp add: combineStep_def Let_def)

lemma fold_combineStep_signs:
  assumes "0 \<le> fst acc" and "snd acc \<le> 0"
  shows "0 \<le> fst (fold (combineStep pf) ps acc) \<and> snd (fold (combineStep pf) ps acc) \<le> 0"
  using assms
proof (induction ps arbitrary: acc)
  case Nil
  then show ?case by simp
next
  case (Cons p ps)
  then show ?case
    using combineStep_signs [of acc pf p] by simp
qed

lemma normalize_array_invariant:
  "positionInvariant (normalizePositionPayload pf (JArr entries) c)"
proof -
  obtain l s m where f: "fold (entryStep pf) entries (0, 0, JNull) = (l, s, m)"
    by (cases "fold (entryStep pf) entries (0, 0, JNull)") auto
  have "0 \<le> l \<and> s \<le> 0"
    using fold_entryStep_signs [of "(0, 0, JNull)" pf entries] f by simp
  then show ?thesis
    by (simp add: normalizePositionPayload_def positionInvariant_def f)
qed

lemma normalize_object_invariant:
  assumes "truthy raw" and "\<forall>entries. raw \<noteq> JArr entries"
  shows "positionInvariant (normalizePositionPayload pf raw c)"
proof -
  show ?thesis
    using assms
    by (cases raw)
       (simp_all add: normalizePositionPayload_def positionInvariant_def Let_def update_conv'
          split: jsval.splits)
qed

lemma normalize_invariant:
  "truthy raw \<Longrightarrow> positionInvariant (normalizePositionPayload pf raw c)"
  using normalize_array_invariant normalize_object_invariant
  by (cases "\<exists>entries. raw = JArr entries") auto

lemma normalize_null_or_invariant:
  "normalizePositionPayload pf raw c = JNull \<or> positionInvariant (normalizePositionPayload pf raw c)"
  using normalize_invariant [of raw pf c]
  by (cases "truthy raw") (simp_all add: normalizePositionPayload_def)


lemma list_fallback_invariant:
  "positionInvariant
     (case fold (combineStep pf) cps (0, 0) of
        (long, short) \<Rightarrow>
          JObj [(''contract'', JStr c), (''long_size'', JNum long), (''short_size'', JNum short),
                (''size'', JNum (long + short)), (''positions'', JArr cps)])"
proof -
  obtain l s where f: "fold (combineStep pf) cps (0, 0) = (l, s)"
    by (cases "fold (combineStep pf) cps (0, 0)") auto
  have "0 \<le> l \<and> s \<le> 0"
    using fold_combineStep_signs [of "(0, 0)" pf cps] f by simp
  then show ?thesis
    by (simp add: positionInvariant_def f)
qed

lemma getPosition_null_or_invariant:
  "getPosition pf tr ex symbol = JNull \<or> positionInvariant (getPosition pf tr ex symbol)"
proof -
  let ?c = "parseSymbol symbol"
  let ?n = "case ex ''GET'' (''/api/v4/futures/'' @ settle tr @ ''/positions/'' @ ?c) JNull [] of
              Inl e \<Rightarrow> JNull
            | Inr position \<Rightarrow> normalizePositionPayload pf position ?c"
  show ?thesis
  proof (cases "truthy ?n")
    case True
    then have g: "getPosition pf tr ex symbol = ?n"
      by (simp add: getPosition_def Let_def)
    have "?n = JNull \<or> positionInvariant ?n"
      using normalize_null_or_invariant by (auto split: sum.splits)
    then show ?thesis
      using g by simp
  next
    case False
    then show ?thesis
      using list_fallback_invariant
      by (auto simp add: getPosition_def Let_def split: sum.splits jsval.splits)
  qed
qed

text \<open>
  C10: every payload that is not falsy, in the array shape or in any other, is
  normalized to a position whose \<open>long_size\<close> is not negative, whose \<open>short_size\<close> is
  not positive and whose \<open>size\<close> is their sum; and whatever \<open>getPosition\<close> returns,
  from the single endpoint or from the list fallback, is null or such a position.
\<close>

theorem normalized_position_invariant:
  "(truthy rawPosition \<longrightarrow> positionInvariant (normalizePositionPayload pf rawPosition c))
   \<and> (getPosition pf tr ex symbol = JNull
        \<or> positionInvariant (getPosition pf tr ex symbol))"
  using normalize_invariant getPosition_null_or_invariant by blast

lemma list_position:
  "getPosition noParse liveTrader listExchange ''BTC/USDT''
     = JObj [(''contract'', JStr ''BTC_USDT''), (''long_size'', JNum 2),
             (''short_size'', JNum (- 1)), (''size'', JNum 1),
             (''positions'',
              JArr [JObj [(''contract'', JStr ''BTC_USDT''), (''size'', JNum 2)],
                    JObj [(''contract'', JStr ''BTC_USDT''), (''size'', JNum (- 1))]])]"
  by (simp add: getPosition_def listExchange_def liveTrader_fields parseSymbol_def
        nullish_def combineStep_def parseNumber_def Let_def)

theorem normalized_position_invariant_witness:
  "truthy (JArr [JObj [(''size'', JNum 3)], JObj [(''size'', JNum (- 4))]])
   \<and> positionInvariant
        (normalizePositionPayload noParse
           (JArr [JObj [(''size'', JNum 3)], JObj [(''size'', JNum (- 4))]]) ''BTC_USDT'')
   \<and> getPosition noParse liveTrader listExchange ''BTC/USDT'' \<noteq> JNull
   \<and> positionInvariant (getPosition noParse liveTrader listExchange ''BTC/USDT'')"
  using normalized_position_invariant
          [of "JArr [JObj [(''size'', JNum 3)], JObj [(''size'', JNum (- 4))]]"
              noParse "''BTC_USDT''" liveTrader listExchange "''BTC/USDT''"]
  by (simp add: list_position)

section \<open>Close actions\<close>

lemma getSideSize_positive_truthy:
  "getSideSize pf position sd = Inr s \<Longrightarrow> 0 < s \<Longrightarrow> truthy position"
  by (cases "truthy position") (simp_all add: getSideSize_def)

text \<open>
  C6: in dual mode (the mode resolves to \<open>dual_long_short\<close>), with \<open>r > 0\<close> contracts
  requested and a side of size \<open>s > 0\<close>, the long exit posts exactly one order, of size
  \<open>- min r s\<close>, and the short exit exactly one order, of size \<open>min r s\<close>; the
  magnitude is at most \<open>s\<close>. The witness is the instance of three contracts long and
  ten requested, which posts the size \<open>-3\<close>.
\<close>

theorem dual_close_clamped:
  assumes "determinePositionMode tr (getPosition pf tr ex symbol) = JStr ''dual_long_short''"
    and "convertBaseAmountToContracts pf tr ex symbol amount = Inr (cs, r)"
    and "0 < r"
    and "0 < s"
  shows "(getSideSize pf (getPosition pf tr ex symbol) Long = Inr s \<longrightarrow>
            snd (marketSell pf tr ex symbol amount)
              = [orderBody (parseSymbol symbol) (- min (of_int r) s) ''t-long-exit'' True])
       \<and> (getSideSize pf (getPosition pf tr ex symbol) Short = Inr s \<longrightarrow>
            snd (closeShort pf tr ex symbol amount)
              = [orderBody (parseSymbol symbol) (min (of_int r) s) ''t-short-exit'' True])
       \<and> \<bar>min (of_int r) s\<bar> \<le> s"
proof -
  have a: "\<bar>s\<bar> = s" using assms(4) by simp
  have long: "snd (marketSell pf tr ex symbol amount)
              = [orderBody (parseSymbol symbol) (- min (of_int r) s) ''t-long-exit'' True]"
    if g: "getSideSize pf (getPosition pf tr ex symbol) Long = Inr s"
  proof -
    have t: "truthy (getPosition pf tr ex symbol)"
      using g assms(4) by (rule getSideSize_positive_truthy)
    show ?thesis
      using assms t g a by (simp add: marketSell_def Let_def)
  qed
  have short: "snd (closeShort pf tr ex symbol amount)
              = [orderBody (parseSymbol symbol) (min (of_int r) s) ''t-short-exit'' True]"
    if g: "getSideSize pf (getPosition pf tr ex symbol) Short = Inr s"
  proof -
    have t: "truthy (getPosition pf tr ex symbol)"
      using g assms(4) by (rule getSideSize_positive_truthy)
    show ?thesis
      using assms t g a by (simp add: closeShort_def Let_def)
  qed
  have "\<bar>min (of_int r) s\<bar> \<le> s"
    using assms(3,4) by (simp add: min_def)
  then show ?thesis
    using long short by blast
qed

lemma closing_position:
  "getPosition noParse liveTrader closingExchange ''BTC/USDT''
     = JObj [(''contract'', JStr ''BTC_USDT''), (''long_size'', JNum 3),
             (''short_size'', JNum (- 4)), (''size'', JNum (- 1)),
             (''positions'', JArr [JObj [(''size'', JNum 3)], JObj [(''size'', JNum (- 4))]]),
             (''mode'', JUndefined)]"
  by (simp add: getPosition_def closingExchange_def liveTrader_fields parseSymbol_def
        normalizePositionPayload_def entryStep_def optProp_def nullish_def parseNumber_def
        orElse_def Let_def)

lemma closing_convert:
  "convertBaseAmountToContracts noParse liveTrader closingExchange ''BTC/USDT'' 10 = Inr (1, 10)"
  by (simp add: convertBaseAmountToContracts_def getContract_def closingExchange_def
        liveTrader_fields parseSymbol_def optProp_def nullish_def coalesce_def parseNumber_def
        double_small double_integers)

theorem dual_close_clamped_witness:
  "determinePositionMode liveTrader (getPosition noParse liveTrader closingExchange ''BTC/USDT'')
     = JStr ''dual_long_short''
   \<and> convertBaseAmountToContracts noParse liveTrader closingExchange ''BTC/USDT'' 10 = Inr (1, 10)
   \<and> (0::int) < 10 \<and> (0::rat) < 3
   \<and> getSideSize noParse (getPosition noParse liveTrader closingExchange ''BTC/USDT'') Long = Inr 3
   \<and> snd (marketSell noParse liveTrader closingExchange ''BTC/USDT'' 10)
       = [orderBody ''BTC_USDT'' (- 3) ''t-long-exit'' True]
   \<and> (0::rat) < 4
   \<and> getSideSize noParse (getPosition noParse liveTrader closingExchange ''BTC/USDT'') Short = Inr 4
   \<and> snd (closeShort noParse liveTrader closingExchange ''BTC/USDT'' 10)
       = [orderBody ''BTC_USDT'' 4 ''t-short-exit'' True]"
proof -
  have m: "determinePositionMode liveTrader (getPosition noParse liveTrader closingExchange ''BTC/USDT'')
             = JStr ''dual_long_short''"
    by (simp add: closing_position determinePositionMode_def liveTrader_fields)
  have r: "(0::int) < 10" by simp
  have s: "(0::rat) < 3" by simp
  have g: "getSideSize noParse (getPosition noParse liveTrader closingExchange ''BTC/USDT'') Long = Inr 3"
    by (simp add: closing_position getSideSize_def parseNumber_def)
  have s': "(0::rat) < 4" by simp
  have g': "getSideSize noParse (getPosition noParse liveTrader closingExchange ''BTC/USDT'') Short = Inr 4"
    by (simp add: closing_position getSideSize_def parseNumber_def)
  show ?thesis
    using dual_close_clamped [OF m closing_convert r s] dual_close_clamped [OF m closing_convert r s']
      m closing_convert g g'
    by (simp add: parseSymbol_def)
qed


text \<open>
  C7 (as stated, refuted): a close action on an absent position returns
  \<open>no_position\<close>. The source converts the amount, which fetches the contract, before
  it looks at the position: on an exchange that cannot be reached the position is null
  and the long exit throws the contract error instead.
\<close>

theorem close_down_counterexample:
  "getPosition noParse liveTrader downExchange ''BTC/USDT'' = JNull
   \<and> fst (marketSell noParse liveTrader downExchange ''BTC/USDT'' 10)
       = Inl (Wrapped ''Market sell (long exit) failed: ''
               (Wrapped ''Failed to get contract info: '' (RequestError ''unreachable'')))
   \<and> fst (marketSell noParse liveTrader downExchange ''BTC/USDT'' 10)
       \<noteq> Inr (noPosition ''No long position to close'')"
  by (simp add: getPosition_def marketSell_def convertBaseAmountToContracts_def getContract_def
        downExchange_def Let_def)

text \<open>
  C7 (amended): when the fetched position is absent or the size of the requested side
  is not positive, a close action posts no order; it returns \<open>no_position\<close> when the
  conversion of the amount succeeds, and throws the wrapped error of the conversion
  when it fails.
\<close>

theorem close_without_position:
  assumes "getSideSize pf (getPosition pf tr ex symbol) sd = Inr s"
    and "\<not> truthy (getPosition pf tr ex symbol) \<or> s \<le> 0"
  shows "(sd = Long \<longrightarrow>
            marketSell pf tr ex symbol amount
              = (case convertBaseAmountToContracts pf tr ex symbol amount of
                   Inl e \<Rightarrow> Inl (Wrapped ''Market sell (long exit) failed: '' e)
                 | Inr converted \<Rightarrow> Inr (noPosition ''No long position to close''),
                 []))
       \<and> (sd = Short \<longrightarrow>
            closeShort pf tr ex symbol amount
              = (case convertBaseAmountToContracts pf tr ex symbol amount of
                   Inl e \<Rightarrow> Inl (Wrapped ''Close short failed: '' e)
                 | Inr converted \<Rightarrow> Inr (noPosition ''No short position to close''),
                 []))"
  using assms
  by (auto simp add: marketSell_def closeShort_def Let_def split: sum.splits)

lemma flat_position: "getPosition noParse liveTrader flatExchange ''BTC/USDT'' = JNull"
  by (simp add: getPosition_def flatExchange_def liveTrader_fields parseSymbol_def)

lemma flat_convert:
  "convertBaseAmountToContracts noParse liveTrader flatExchange ''BTC/USDT'' 10 = Inr (1, 10)"
  by (simp add: convertBaseAmountToContracts_def getContract_def flatExchange_def
        liveTrader_fields parseSymbol_def optProp_def nullish_def coalesce_def parseNumber_def
        double_small double_integers)

theorem close_without_position_witness:
  "getSideSize noParse (getPosition noParse liveTrader flatExchange ''BTC/USDT'') Long = Inr 0
   \<and> marketSell noParse liveTrader flatExchange ''BTC/USDT'' 10
       = (Inr (noPosition ''No long position to close''), [])
   \<and> getSideSize noParse (getPosition noParse liveTrader flatExchange ''BTC/USDT'') Short = Inr 0
   \<and> closeShort noParse liveTrader flatExchange ''BTC/USDT'' 10
       = (Inr (noPosition ''No short position to close''), [])"
proof -
  have l: "getSideSize noParse (getPosition noParse liveTrader flatExchange ''BTC/USDT'') Long = Inr 0"
    by (simp add: flat_position getSideSize_def)
  have s: "getSideSize noParse (getPosition noParse liveTrader flatExchange ''BTC/USDT'') Short = Inr 0"
    by (simp add: flat_position getSideSize_def)
  have n: "\<not> truthy (getPosition noParse liveTrader flatExchange ''BTC/USDT'') \<or> (0::rat) \<le> 0"
    by simp
  show ?thesis
    using close_without_position [OF l n, of 10] close_without_position [OF s n, of 10] l s
    by (simp add: flat_convert)
qed

section \<open>The leverage of the signal\<close>

text \<open>
  C4 (the code at the failing input): the signal asks for a leverage of 10 on 10 percent
  of 1000 at a mark price of 100, which would be 10 contracts. The position's own
  leverage is 5, and the long entry and the short entry both post 5 contracts: the
  leverage of the signal reaches neither.
\<close>

theorem leverage_override_dropped:
  "sigLeverage entrySignal = 10
   \<and> snd (handleWebhook noParse liveTrader sizingExchange entrySignal)
       = [orderBody ''BTC_USDT'' 5 ''t-long-entry'' False]
   \<and> snd (handleWebhook noParse liveTrader sizingExchange
             (entrySignal\<lparr>sigAction := ''short_entry''\<rparr>))
       = [orderBody ''BTC_USDT'' (- 5) ''t-short-entry'' False]
   \<and> \<lfloor>(1 / 10) * 1000 * sigLeverage entrySignal / 100 / 1\<rfloor> = 10"
  by (simp add: handleWebhook_def entrySignal_def marketBuy_def openShort_def sizing_entry
        postOrder_def sizingExchange_def liveTrader_fields Let_def)

text \<open>The result of the handler does not depend on the leverage of the signal at all.\<close>

lemma handleWebhook_ignores_leverage:
  "handleWebhook pf tr ex (payload\<lparr>sigLeverage := l\<rparr>) = handleWebhook pf tr ex payload"
  by (simp add: handleWebhook_def)

end
